theory Spec2Isabelle
  imports Main
begin

section \<open>Pomotodo: the timer state machine and the task list\<close>

text \<open>
  A shallow embedding of \<^verbatim>\<open>pomotodo.py\<close> (class \<^verbatim>\<open>PomodoroAppWithTodo\<close>) and of
  \<^verbatim>\<open>drag_task.py\<close> (class \<^verbatim>\<open>DraggableListWidget\<close>). The window object is a record
  that every handler takes and returns. What a handler sends outside the object (the
  JSON file, the media player, message boxes) is appended to the field \<open>effects\<close>, in
  the order of the calls. What the user or Qt supplies to a handler (the reply to a
  question box, the fields of an accepted dialog, the selected rows, the order of the
  rows after a drag) is a parameter of the handler. A modal dialog runs an event loop
  of its own, in which the timer can tick; a handler that opens one is modelled on the
  window as it stands when the dialog closes.

  Not modelled: style sheets, layouts and the text of the timer label, which is a
  function of \<open>current_time_left\<close> alone (\<^verbatim>\<open>_update_timer_display\<close> writes nothing else).
  Writing the JSON file is taken to succeed.
\<close>

subsection \<open>Data\<close>

text \<open>
  A task is the dict built by \<^verbatim>\<open>_add_task\<close>, with the keys \<^verbatim>\<open>text\<close>, \<^verbatim>\<open>estimated\<close>,
  \<^verbatim>\<open>completed\<close> and \<^verbatim>\<open>done\<close> (the first and the last are renamed: both words are
  Isabelle keywords). A Python \<^verbatim>\<open>str\<close> is the list of its code points, here those
  below 256.
\<close>

record task =
  task_text :: string
  estimated :: int
  completed :: int
  task_done :: bool

text \<open>The three values \<^verbatim>\<open>current_state\<close> takes: "pomodoro", "short_break", "long_break".\<close>

datatype state_name = pomodoro | short_break | long_break

text \<open>The dict \<^verbatim>\<open>data["settings"]\<close> that \<^verbatim>\<open>_save_data\<close> writes.\<close>

record settings =
  s_focus_time_min :: int
  s_short_break_time_min :: int
  s_long_break_time_min :: int
  s_long_break_interval :: int
  s_dark_mode_enabled :: bool

text \<open>
  Calls that leave the object. \<open>'e\<close> is what the cells of \<^verbatim>\<open>self.tasks\<close> hold: task
  dicts everywhere except after \<^verbatim>\<open>dropEvent\<close> (see below).
\<close>

datatype 'e effect =
    Saved settings "'e list"       \<comment> \<open>\<^verbatim>\<open>json.dump\<close> of settings and tasks to the data file\<close>
  | Played string                  \<comment> \<open>\<^verbatim>\<open>media_player.setSource(url); media_player.play()\<close>\<close>
  | Information string string      \<comment> \<open>\<^verbatim>\<open>QMessageBox.information(self, title, text)\<close>\<close>
  | Warning string string          \<comment> \<open>\<^verbatim>\<open>QMessageBox.warning(self, title, text)\<close>\<close>

datatype error = ZeroDivisionError

text \<open>
  The fields of the window that the handlers read or write. \<open>timer_active\<close> is the
  \<^verbatim>\<open>QTimer\<close> (\<^verbatim>\<open>start(1000)\<close> sets it, \<^verbatim>\<open>stop()\<close> clears it); \<open>items\<close> holds, for each
  row of \<^verbatim>\<open>task_list_widget\<close> from top to bottom, the value stored in the item
  under \<^verbatim>\<open>UserRole\<close> (which row is current or selected is the user's and Qt's).
  \<open>focus_end_media\<close> and \<open>break_end_media\<close> are \<^verbatim>\<open>None\<close> when the sound file was
  missing at start-up.
\<close>

record 'e app =
  tasks :: "'e list"
  focus_time_min :: int
  short_break_time_min :: int
  long_break_time_min :: int
  long_break_interval :: int
  dark_mode_enabled :: bool
  focus_time :: int
  short_break_time :: int
  long_break_time :: int
  current_time_left :: int
  is_running :: bool
  current_state :: state_name
  completed_pomodoros_in_cycle :: int
  timer_active :: bool
  current_task_index :: "nat option"
  focus_end_media :: "string option"
  break_end_media :: "string option"
  start_pause_button :: string
  current_task_display_label :: string
  task_input :: string
  pomodoro_estimate_input :: int
  items :: "nat list"
  effects :: "'e effect list"

subsection \<open>Persistence, sound, and the display of the task list\<close>

definition settings_of :: "'e app \<Rightarrow> settings" where
  "settings_of s =
     \<lparr>s_focus_time_min = focus_time_min s,
      s_short_break_time_min = short_break_time_min s,
      s_long_break_time_min = long_break_time_min s,
      s_long_break_interval = long_break_interval s,
      s_dark_mode_enabled = dark_mode_enabled s\<rparr>"

definition save_data :: "'e app \<Rightarrow> 'e app" where
  "save_data s = s\<lparr>effects := effects s @ [Saved (settings_of s) (tasks s)]\<rparr>"

definition play_sound :: "string option \<Rightarrow> 'e app \<Rightarrow> 'e app" where
  "play_sound media_source s =
     (case media_source of
        None \<Rightarrow> s
      | Some url \<Rightarrow> s\<lparr>effects := effects s @ [Played url]\<rparr>)"

text \<open>
  \<^verbatim>\<open>_update_task_list_display\<close>: the widget is cleared, then for each pair
  \<^verbatim>\<open>i, task_data\<close> of \<^verbatim>\<open>enumerate(self.tasks)\<close> one item is added at the end, which
  stores the number \<open>i\<close> under \<^verbatim>\<open>UserRole\<close> and shows \<^verbatim>\<open>task_data\<close>.
\<close>

definition update_task_list_display :: "'e app \<Rightarrow> 'e app" where
  "update_task_list_display s =
     s\<lparr>items := fold (\<lambda>(i, task_data) rows. rows @ [i]) (enumerate 0 (tasks s)) []\<rparr>"

subsection \<open>The timer\<close>

definition toggle_timer_off_if_running :: "'e app \<Rightarrow> 'e app" where
  "toggle_timer_off_if_running s =
     (if is_running s
      then s\<lparr>timer_active := False, is_running := False, start_pause_button := ''START''\<rparr>
      else s)"

text \<open>
  \<^verbatim>\<open>_update_ui_for_state\<close>, without the style sheet: the countdown is set to the
  duration of the current state, and the button reads START unless the timer runs.
\<close>

definition update_ui_for_state :: "'e app \<Rightarrow> 'e app" where
  "update_ui_for_state s =
     (let s1 = (case current_state s of
                  pomodoro \<Rightarrow> s\<lparr>current_time_left := focus_time s\<rparr>
                | short_break \<Rightarrow> s\<lparr>current_time_left := short_break_time s\<rparr>
                | long_break \<Rightarrow> s\<lparr>current_time_left := long_break_time s\<rparr>)
      in if \<not> is_running s1 then s1\<lparr>start_pause_button := ''START''\<rparr> else s1)"

definition toggle_timer :: "'e app \<Rightarrow> 'e app" where
  "toggle_timer s =
     (if is_running s
      then s\<lparr>timer_active := False, is_running := False, start_pause_button := ''START''\<rparr>
      else s\<lparr>timer_active := True, is_running := True, start_pause_button := ''PAUSE''\<rparr>)"

subsection \<open>Task progress\<close>

definition completed_message :: "task \<Rightarrow> string" where
  "completed_message t =
     ''Congratulations! You completed the task:'' @ [CHR 0x0A, CHR 0x27] @ task_text t @ [CHR 0x27]"

text \<open>
  \<^verbatim>\<open>_update_task_progress\<close>. The task dict is mutated in place, which is the update of
  cell \<open>i\<close> of the list: no dict occurs in two cells, since each one is created by
  \<^verbatim>\<open>_add_task\<close> or by \<^verbatim>\<open>json.load\<close>.
\<close>

definition update_task_progress :: "task app \<Rightarrow> task app" where
  "update_task_progress s =
     (case current_task_index s of
        None \<Rightarrow> s
      | Some i \<Rightarrow>
          if i < length (tasks s) then
            let t = tasks s ! i in
            if \<not> task_done t then
              let t1 = t\<lparr>completed := completed t + 1\<rparr>;
                  s1 = s\<lparr>tasks := (tasks s)[i := t1]\<rparr>;
                  s2 = (if completed t1 \<ge> estimated t1
                        then s1\<lparr>tasks := (tasks s1)[i := t1\<lparr>task_done := True\<rparr>],
                                effects := effects s1 @
                                  [Information ''Task Completed!'' (completed_message t1)],
                                current_task_index := None,
                                current_task_display_label := ''No Task Selected''\<rparr>
                        else s1)
              in save_data (update_task_list_display s2)
            else s
          else s)"

subsection \<open>The state machine\<close>

text \<open>
  \<^verbatim>\<open>_advance_state_machine\<close>. Python's \<^verbatim>\<open>%\<close> raises \<^verbatim>\<open>ZeroDivisionError\<close> on a zero
  modulus and otherwise takes the sign of the divisor, as \<open>mod\<close> on \<open>int\<close> does. The
  exception leaves the handler; the result is then the error alone.
\<close>

definition advance_state_machine :: "task app \<Rightarrow> error + task app" where
  "advance_state_machine s0 =
     (let s = toggle_timer_off_if_running s0;
          previous_state = current_state s
      in if previous_state = pomodoro then
           let s1 = update_task_progress s;
               s2 = s1\<lparr>completed_pomodoros_in_cycle := completed_pomodoros_in_cycle s1 + 1\<rparr>
           in if long_break_interval s2 = 0 then Inl ZeroDivisionError
              else if completed_pomodoros_in_cycle s2 mod long_break_interval s2 = 0
                   then Inr (update_ui_for_state (s2\<lparr>current_state := long_break\<rparr>))
                   else Inr (update_ui_for_state (s2\<lparr>current_state := short_break\<rparr>))
         else
           let s1 = s\<lparr>current_state := pomodoro\<rparr>;
               s2 = (if previous_state = long_break
                     then s1\<lparr>completed_pomodoros_in_cycle := 0\<rparr> else s1)
           in Inr (update_ui_for_state s2))"

text \<open>\<^verbatim>\<open>_update_timer\<close>, the slot of the \<^verbatim>\<open>QTimer\<close>: called once a second while it is active.\<close>

definition update_timer :: "task app \<Rightarrow> error + task app" where
  "update_timer s =
     (if current_time_left s > 0
      then Inr (s\<lparr>current_time_left := current_time_left s - 1\<rparr>)
      else
        let sound_media = (if current_state s = pomodoro
                           then focus_end_media s else break_end_media s);
            s1 = play_sound sound_media s;
            s2 = s1\<lparr>timer_active := False, is_running := False\<rparr>
        in advance_state_machine s2)"

subsection \<open>Adding, editing and deleting tasks\<close>

text \<open>
  \<^verbatim>\<open>str.strip()\<close>: leading and trailing whitespace is removed. The code points below
  256 that \<^verbatim>\<open>str.isspace\<close> accepts are 9 to 13, 28 to 32, 133 and 160.
\<close>

definition isspace :: "char \<Rightarrow> bool" where
  "isspace c = (let n = (of_char c :: nat) in (9 \<le> n \<and> n \<le> 13) \<or> (28 \<le> n \<and> n \<le> 32) \<or> n = 133 \<or> n = 160)"

definition strip :: "string \<Rightarrow> string" where
  "strip txt = rev (dropWhile isspace (rev (dropWhile isspace txt)))"

text \<open>
  \<^verbatim>\<open>_add_task\<close> reads the line edit \<open>task_input\<close> and the spin box
  \<open>pomodoro_estimate_input\<close>, which hold what the user entered.
\<close>

definition add_task :: "task app \<Rightarrow> task app" where
  "add_task s =
     (let new_text = strip (task_input s) in
      if new_text = [] then s
      else
        let task_data = \<lparr>task_text = new_text, estimated = pomodoro_estimate_input s,
                         completed = 0, task_done = False\<rparr>;
            s1 = s\<lparr>tasks := tasks s @ [task_data]\<rparr>;
            s2 = s1\<lparr>task_input := []\<rparr>;
            s3 = s2\<lparr>pomodoro_estimate_input := 1\<rparr>
        in save_data (update_task_list_display s3))"

text \<open>
  How \<^verbatim>\<open>EditTaskDialog.exec()\<close> ends: rejected, or accepted with the contents of its
  line edit and of its spin box. \<^verbatim>\<open>get_data\<close> strips the text.
\<close>

datatype dialog_result = Rejected | Accepted string int

definition get_data :: "string \<Rightarrow> int \<Rightarrow> string \<times> int" where
  "get_data txt est = (strip txt, est)"

text \<open>
  \<^verbatim>\<open>_edit_selected_task\<close>; \<open>row\<close> is \<^verbatim>\<open>task_list_widget.row(item)\<close> of an item of the
  widget, a natural number, so that \<^verbatim>\<open>0 <= row\<close> holds.
\<close>

definition edit_selected_task :: "task app \<Rightarrow> nat \<Rightarrow> dialog_result \<Rightarrow> task app" where
  "edit_selected_task s row d =
     (if \<not> row < length (tasks s) then s
      else
        let task_data = tasks s ! row in
        case d of
          Rejected \<Rightarrow> s
        | Accepted txt est \<Rightarrow>
            (case get_data txt est of (new_text, new_est) \<Rightarrow>
               if new_text = []
               then s\<lparr>effects := effects s @
                        [Warning ''Invalid Input'' ''Task description cannot be empty.'']\<rparr>
               else
                 let t1 = task_data\<lparr>task_text := new_text\<rparr>;
                     t2 = t1\<lparr>estimated := new_est\<rparr>;
                     t3 = (if task_done t2 \<and> completed t2 < new_est
                           then t2\<lparr>task_done := False\<rparr> else t2)
                 in save_data (update_task_list_display (s\<lparr>tasks := (tasks s)[row := t3]\<rparr>))))"

text \<open>\<^verbatim>\<open>del xs[row]\<close> for a row in range.\<close>

definition del_at :: "nat \<Rightarrow> 'a list \<Rightarrow> 'a list" where
  "del_at row xs = take row xs @ drop (Suc row) xs"

text \<open>
  The loop of \<^verbatim>\<open>_delete_selected_tasks\<close> over \<^verbatim>\<open>rows_to_delete\<close>; \<open>delete_row\<close> is its
  body.
\<close>

definition delete_row :: "nat \<Rightarrow> 'e app \<Rightarrow> 'e app" where
  "delete_row row s =
     (if row < length (tasks s) then
        let s1 = (if Some row = current_task_index s
                  then s\<lparr>current_task_index := None,
                         current_task_display_label := ''No Task Selected''\<rparr>
                  else s)
        in s1\<lparr>tasks := del_at row (tasks s1)\<rparr>
      else s)"

fun delete_rows :: "nat list \<Rightarrow> 'e app \<Rightarrow> 'e app" where
  "delete_rows [] s = s"
| "delete_rows (row # rows) s = delete_rows rows (delete_row row s)"

datatype standard_button = Yes | No

text \<open>
  \<^verbatim>\<open>_delete_selected_tasks\<close>; \<open>selected_rows\<close> are the rows of
  \<^verbatim>\<open>task_list_widget.selectedItems()\<close>, and \<open>reply\<close> is the button the user presses in
  the question box. \<^verbatim>\<open>sorted(..., reverse=True)\<close> is the sorted list reversed.
\<close>

definition delete_selected_tasks :: "task app \<Rightarrow> nat list \<Rightarrow> standard_button \<Rightarrow> task app" where
  "delete_selected_tasks s selected_rows reply =
     (if selected_rows = [] then s
      else if reply = Yes then
        let rows_to_delete = rev (sort selected_rows)
        in save_data (update_task_list_display (delete_rows rows_to_delete s))
      else s)"

text \<open>
  \<^verbatim>\<open>_task_item_clicked\<close> on the item in row \<open>row\<close> of the widget: the number the item
  stores becomes \<^verbatim>\<open>current_task_index\<close>.
\<close>

definition task_item_clicked :: "task app \<Rightarrow> nat \<Rightarrow> task app" where
  "task_item_clicked s row =
     (if row < length (items s) then
        let s1 = s\<lparr>current_task_index := Some (items s ! row)\<rparr> in
        if items s ! row < length (tasks s1)
        then s1\<lparr>current_task_display_label := ''Doing: '' @ task_text (tasks s1 ! (items s ! row))\<rparr>
        else s1
      else s)"

subsection \<open>Reordering by drag and drop\<close>

text \<open>
  What a cell of \<^verbatim>\<open>self.tasks\<close> can hold once \<^verbatim>\<open>dropEvent\<close> has run: a task dict, or
  the number an item of the widget stored under \<^verbatim>\<open>UserRole\<close>.
\<close>

datatype cell = TaskDict task | RowNumber nat

text \<open>
  \<^verbatim>\<open>DraggableListWidget.dropEvent\<close>. \<^verbatim>\<open>super().dropEvent(event)\<close> is Qt's: it leaves the
  items of the widget in a new order, \<open>moved\<close>, given here by what each item stores
  under \<^verbatim>\<open>UserRole\<close>. The handler then reads that value from every item, top to
  bottom, and replaces the contents of \<^verbatim>\<open>tasks_ref\<close>, which is the list \<^verbatim>\<open>self.tasks\<close>
  of the window, by these values. They are what \<^verbatim>\<open>_update_task_list_display\<close> stored:
  row numbers. So the window is a \<open>cell app\<close> afterwards; the effects recorded so
  far are kept, their task dicts as \<open>TaskDict\<close> cells. No other field of the window
  is written. \<open>parent_has_save_data\<close> is the value of
  \<^verbatim>\<open>hasattr(self.parent(), '_save_data')\<close>. In the application the widget is added to
  the layout of \<^verbatim>\<open>todolist_container\<close>, a plain \<^verbatim>\<open>QWidget\<close>, which Qt makes its parent,
  so the value is \<open>False\<close> there.
\<close>

definition dropEvent :: "task app \<Rightarrow> nat list \<Rightarrow> bool \<Rightarrow> cell app" where
  "dropEvent s moved parent_has_save_data =
     (let new_tasks_order = fold (\<lambda>task_data acc. acc @ [RowNumber task_data]) moved [];
          s1 = \<lparr>tasks = new_tasks_order,
                focus_time_min = focus_time_min s,
                short_break_time_min = short_break_time_min s,
                long_break_time_min = long_break_time_min s,
                long_break_interval = long_break_interval s,
                dark_mode_enabled = dark_mode_enabled s,
                focus_time = focus_time s,
                short_break_time = short_break_time s,
                long_break_time = long_break_time s,
                current_time_left = current_time_left s,
                is_running = is_running s,
                current_state = current_state s,
                completed_pomodoros_in_cycle = completed_pomodoros_in_cycle s,
                timer_active = timer_active s,
                current_task_index = current_task_index s,
                focus_end_media = focus_end_media s,
                break_end_media = break_end_media s,
                start_pause_button = start_pause_button s,
                current_task_display_label = current_task_display_label s,
                task_input = task_input s,
                pomodoro_estimate_input = pomodoro_estimate_input s,
                items = moved,
                effects = map (map_effect TaskDict) (effects s)\<rparr>
      in if parent_has_save_data then save_data s1 else s1)"

text \<open>
  One way \<^verbatim>\<open>super().dropEvent\<close> reorders the items: the item in row \<open>src\<close> is taken
  out and put back in row \<open>dst\<close>.
\<close>

definition move_row :: "nat \<Rightarrow> nat \<Rightarrow> 'a list \<Rightarrow> 'a list" where
  "move_row src dst xs = (let ys = del_at src xs in take dst ys @ [xs ! src] @ drop dst ys)"

subsection \<open>Start-up\<close>

text \<open>
  \<^verbatim>\<open>__init__\<close> when the data file is missing or corrupt: \<^verbatim>\<open>_load_data\<close> sets the defaults
  and saves them, the session starts in focus, paused, with no active task, and the
  widgets are created (\<^verbatim>\<open>task_input\<close> empty, \<^verbatim>\<open>pomodoro_estimate_input\<close> at its minimum
  1). The parameters say which sound files \<^verbatim>\<open>_preload_sounds\<close> found.
\<close>

definition initial_app :: "string option \<Rightarrow> string option \<Rightarrow> task app" where
  "initial_app focus_media break_media =
     (let s0 = \<lparr>tasks = [],
                focus_time_min = 25,
                short_break_time_min = 5,
                long_break_time_min = 15,
                long_break_interval = 4,
                dark_mode_enabled = False,
                focus_time = 25 * 60,
                short_break_time = 5 * 60,
                long_break_time = 15 * 60,
                current_time_left = 25 * 60,
                is_running = False,
                current_state = pomodoro,
                completed_pomodoros_in_cycle = 0,
                timer_active = False,
                current_task_index = None,
                focus_end_media = focus_media,
                break_end_media = break_media,
                start_pause_button = ''START'',
                current_task_display_label = ''No Task Selected'',
                task_input = [],
                pomodoro_estimate_input = 1,
                items = [],
                effects = [Saved \<lparr>s_focus_time_min = 25, s_short_break_time_min = 5,
                                   s_long_break_time_min = 15, s_long_break_interval = 4,
                                   s_dark_mode_enabled = False\<rparr> []]\<rparr>
      in update_task_list_display (update_ui_for_state s0))"

subsection \<open>Sample sessions\<close>

text \<open>
  The sound that ends a phase, as \<^verbatim>\<open>_update_timer\<close> and \<^verbatim>\<open>_skip_current_phase\<close> select it.
\<close>

definition phase_end_media :: "'e app \<Rightarrow> string option" where
  "phase_end_media s = (if current_state s = pomodoro then focus_end_media s else break_end_media s)"

text \<open>The user types a description, sets the estimate and presses Enter.\<close>

definition enter_task :: "string \<Rightarrow> int \<Rightarrow> task app \<Rightarrow> task app" where
  "enter_task txt est s = add_task (s\<lparr>task_input := txt, pomodoro_estimate_input := est\<rparr>)"

text \<open>A fresh session, both sound files present.\<close>

definition fresh :: "task app" where
  "fresh = initial_app (Some ''sounds/focus_end.mp3'') (Some ''sounds/break_end.mp3'')"

text \<open>Three tasks A, B and C entered into a fresh session.\<close>

definition three_tasks :: "task app" where
  "three_tasks = enter_task ''C'' 1 (enter_task ''B'' 2 (enter_task ''A'' 3 fresh))"

text \<open>The timer was started and has run down to the given number of seconds.\<close>

definition running_at :: "int \<Rightarrow> task app \<Rightarrow> task app" where
  "running_at secs s = (toggle_timer s)\<lparr>current_time_left := secs\<rparr>"

text \<open>The user clicks the item in the given row of the list of three tasks.\<close>

definition working_on :: "nat \<Rightarrow> task app" where
  "working_on row = task_item_clicked three_tasks row"

text \<open>\<^verbatim>\<open>_update_task_progress\<close> called the given number of times.\<close>

definition credits :: "nat \<Rightarrow> task app \<Rightarrow> task app" where
  "credits n s = (update_task_progress ^^ n) s"

text \<open>\<^verbatim>\<open>_advance_state_machine\<close> called the given number of times, stopping at an error.\<close>

fun advances :: "nat \<Rightarrow> task app \<Rightarrow> error + task app" where
  "advances 0 s = Inr s"
| "advances (Suc n) s =
     (case advance_state_machine s of Inl e \<Rightarrow> Inl e | Inr s' \<Rightarrow> advances n s')"

section \<open>Properties\<close>

subsection \<open>Auxiliary facts\<close>

lemma fold_rows:
  "fold (\<lambda>(i, task_data) rows. rows @ [i]) (enumerate n xs) acc = acc @ [n..<n + length xs]"
  by (induction xs arbitrary: n acc) (simp_all add: upt_rec)

lemma display_eq: "update_task_list_display s = s\<lparr>items := [0..<length (tasks s)]\<rparr>"
  using fold_rows [of 0 "tasks s" "[]"] by (simp add: update_task_list_display_def)

lemma toggle_off_frame:
  "tasks (toggle_timer_off_if_running s) = tasks s"
  "current_task_index (toggle_timer_off_if_running s) = current_task_index s"
  "effects (toggle_timer_off_if_running s) = effects s"
  "current_state (toggle_timer_off_if_running s) = current_state s"
  "completed_pomodoros_in_cycle (toggle_timer_off_if_running s) = completed_pomodoros_in_cycle s"
  "long_break_interval (toggle_timer_off_if_running s) = long_break_interval s"
  "long_break_time (toggle_timer_off_if_running s) = long_break_time s"
  "short_break_time (toggle_timer_off_if_running s) = short_break_time s"
  "focus_time (toggle_timer_off_if_running s) = focus_time s"
  "\<not> is_running (toggle_timer_off_if_running s)"
  "\<not> is_running s \<Longrightarrow> timer_active (toggle_timer_off_if_running s) = timer_active s"
  by (simp_all add: toggle_timer_off_if_running_def)

lemma ui_frame:
  "tasks (update_ui_for_state s) = tasks s"
  "current_task_index (update_ui_for_state s) = current_task_index s"
  "effects (update_ui_for_state s) = effects s"
  "current_state (update_ui_for_state s) = current_state s"
  "completed_pomodoros_in_cycle (update_ui_for_state s) = completed_pomodoros_in_cycle s"
  "is_running (update_ui_for_state s) = is_running s"
  "timer_active (update_ui_for_state s) = timer_active s"
  "current_time_left (update_ui_for_state s) =
     (case current_state s of pomodoro \<Rightarrow> focus_time s | short_break \<Rightarrow> short_break_time s
      | long_break \<Rightarrow> long_break_time s)"
  by (simp_all add: update_ui_for_state_def Let_def split: state_name.splits)

lemma progress_toggle_commute:
  "update_task_progress (toggle_timer_off_if_running s) =
   toggle_timer_off_if_running (update_task_progress s)"
  by (simp add: update_task_progress_def toggle_timer_off_if_running_def save_data_def
      display_eq settings_of_def Let_def split: option.splits)

lemma progress_frame:
  "current_state (update_task_progress s) = current_state s"
  "completed_pomodoros_in_cycle (update_task_progress s) = completed_pomodoros_in_cycle s"
  "long_break_interval (update_task_progress s) = long_break_interval s"
  "is_running (update_task_progress s) = is_running s"
  "timer_active (update_task_progress s) = timer_active s"
  "long_break_time (update_task_progress s) = long_break_time s"
  "short_break_time (update_task_progress s) = short_break_time s"
  by (simp_all add: update_task_progress_def save_data_def display_eq Let_def
      split: option.splits)

lemma progress_effects: "\<exists>rest. effects (update_task_progress s) = effects s @ rest"
  by (simp add: update_task_progress_def save_data_def display_eq Let_def split: option.splits)

lemma advance_pomodoro:
  assumes "current_state s = pomodoro" and "long_break_interval s \<noteq> 0"
  shows "advance_state_machine s =
     Inr (update_ui_for_state ((toggle_timer_off_if_running (update_task_progress s))
       \<lparr>completed_pomodoros_in_cycle := completed_pomodoros_in_cycle s + 1,
        current_state := (if (completed_pomodoros_in_cycle s + 1) mod long_break_interval s = 0
                          then long_break else short_break)\<rparr>))"
  using assms
  by (simp add: advance_state_machine_def Let_def progress_toggle_commute progress_frame
        toggle_off_frame)

lemma advance_break:
  assumes "current_state s \<noteq> pomodoro"
  shows "advance_state_machine s =
     Inr (update_ui_for_state
       (if current_state s = long_break
        then (toggle_timer_off_if_running s)
               \<lparr>current_state := pomodoro, completed_pomodoros_in_cycle := 0\<rparr>
        else (toggle_timer_off_if_running s)\<lparr>current_state := pomodoro\<rparr>))"
  using assms
  by (simp add: advance_state_machine_def Let_def toggle_off_frame)

lemma advance_returns:
  assumes "current_state s = pomodoro \<longrightarrow> long_break_interval s \<noteq> 0"
  shows "\<exists>s'. advance_state_machine s = Inr s' \<and> \<not> is_running s' \<and>
     (\<not> is_running s \<longrightarrow> timer_active s' = timer_active s) \<and>
     current_state s' \<noteq> current_state s \<and> (\<exists>rest. effects s' = effects s @ rest)"
proof (cases "current_state s = pomodoro")
  case True
  with assms have i: "long_break_interval s \<noteq> 0" by simp
  show ?thesis
    using True progress_effects [of s]
    by (simp add: advance_pomodoro [OF True i] ui_frame toggle_off_frame progress_frame)
next
  case False
  show ?thesis
    using False by (simp add: advance_break [OF False] ui_frame toggle_off_frame)
qed

lemma nths_agree:
  assumes "\<And>i. i < length xs \<Longrightarrow> (i \<in> A) = (i \<in> B)"
  shows "nths xs A = nths xs B"
proof -
  have "filter (\<lambda>p. snd p \<in> A) (zip xs [0..<length xs]) =
        filter (\<lambda>p. snd p \<in> B) (zip xs [0..<length xs])"
    by (rule filter_cong) (auto dest!: set_zip_rightD simp: assms)
  then show ?thesis by (simp add: nths_def)
qed

lemma length_del_at: "row < length xs \<Longrightarrow> length (del_at row xs) = length xs - 1"
  by (simp add: del_at_def)

lemma nths_del_at:
  assumes "r < length xs" and "\<forall>x\<in>R. x < r"
  shows "nths (del_at r xs) (- R) = nths xs (- insert r R)"
proof -
  let ?l = "take r xs" and ?u = "drop (Suc r) xs"
  have xs: "xs = ?l @ xs ! r # ?u"
    using assms(1) by (simp add: id_take_nth_drop)
  have len: "length ?l = r" using assms(1) by simp
  have low: "nths ?l (- insert r R) = nths ?l (- R)"
    by (rule nths_agree) auto
  have u1: "nths ?u {j. j + length ?l \<in> - R} = ?u"
    by (rule nths_all) (use assms(2) len in auto)
  have u2: "nths ?u {j. Suc j \<in> {j. j + length ?l \<in> - insert r R}} = ?u"
    by (rule nths_all) (use assms(2) len in auto)
  have z: "0 \<notin> {j. j + length ?l \<in> - insert r R}"
    using len by simp
  have "nths (del_at r xs) (- R) = nths ?l (- R) @ ?u"
    unfolding del_at_def nths_append u1 ..
  moreover have "nths (?l @ xs ! r # ?u) (- insert r R) = nths ?l (- R) @ ?u"
    unfolding nths_append nths_Cons u2 low using z by simp
  ultimately show ?thesis using xs by simp
qed

lemma delete_row_frame:
  "effects (delete_row r s) = effects s"
  "settings_of (delete_row r s) = settings_of s"
  "tasks (delete_row r s) = (if r < length (tasks s) then del_at r (tasks s) else tasks s)"
  "current_task_index (delete_row r s) =
     (if r < length (tasks s) \<and> Some r = current_task_index s then None
      else current_task_index s)"
  by (simp_all add: delete_row_def Let_def settings_of_def)

lemma delete_rows_tasks:
  "sorted_wrt (>) rows \<Longrightarrow> tasks (delete_rows rows s) = nths (tasks s) (- set rows)"
proof (induction rows arbitrary: s)
  case Nil
  show ?case by (simp add: nths_all)
next
  case (Cons r rows)
  then have lt: "\<forall>x\<in>set rows. x < r" and sw: "sorted_wrt (>) rows" by auto
  show ?case
  proof (cases "r < length (tasks s)")
    case True
    then show ?thesis
      using Cons.IH [OF sw] nths_del_at [OF True lt] by (simp add: delete_row_frame)
  next
    case False
    have "nths (tasks s) (- set rows) = nths (tasks s) (- insert r (set rows))"
      by (rule nths_agree) (use False in auto)
    then show ?thesis using False Cons.IH [OF sw] by (simp add: delete_row_frame)
  qed
qed

lemma delete_rows_index:
  "sorted_wrt (>) rows \<Longrightarrow>
   current_task_index (delete_rows rows s) =
     (case current_task_index s of
        None \<Rightarrow> None
      | Some a \<Rightarrow> if a \<in> set rows \<and> a < length (tasks s) then None else Some a)"
proof (induction rows arbitrary: s)
  case Nil
  show ?case by (simp split: option.splits)
next
  case (Cons r rows)
  then have lt: "\<forall>x\<in>set rows. x < r" and sw: "sorted_wrt (>) rows" by auto
  show ?case
    using lt
    by (auto simp add: Cons.IH [OF sw] delete_row_frame length_del_at split: option.splits)
qed

lemma delete_rows_frame:
  "effects (delete_rows rows s) = effects s"
  "settings_of (delete_rows rows s) = settings_of s"
  by (induction rows arbitrary: s) (simp_all add: delete_row_frame)

lemma descending: "distinct xs \<Longrightarrow> sorted_wrt (>) (rev (sort xs))"
  by (simp add: sorted_wrt_rev strict_sorted_iff)

lemma delete_selected_tasks_removes:
  assumes "selected_rows \<noteq> []" and "distinct selected_rows"
  shows "tasks (delete_selected_tasks s selected_rows Yes) =
           nths (tasks s) (- set selected_rows)"
    and "current_task_index s = Some a \<Longrightarrow> a \<in> set selected_rows \<Longrightarrow> a < length (tasks s) \<Longrightarrow>
           current_task_index (delete_selected_tasks s selected_rows Yes) = None"
proof -
  let ?rows = "rev (sort selected_rows)"
  let ?d = "delete_rows ?rows s"
  have d: "sorted_wrt (>) ?rows" using assms(2) by (rule descending)
  have set: "set ?rows = set selected_rows" by simp
  have eq: "delete_selected_tasks s selected_rows Yes =
      save_data (update_task_list_display ?d)"
    using assms(1) by (simp add: delete_selected_tasks_def)
  have t: "tasks (delete_selected_tasks s selected_rows Yes) = tasks ?d"
    and c: "current_task_index (delete_selected_tasks s selected_rows Yes) = current_task_index ?d"
    by (simp_all add: eq save_data_def display_eq)
  show "tasks (delete_selected_tasks s selected_rows Yes) =
           nths (tasks s) (- set selected_rows)"
    unfolding t using delete_rows_tasks [OF d, of s, unfolded set] .
  show "current_task_index (delete_selected_tasks s selected_rows Yes) = None"
    if "current_task_index s = Some a" "a \<in> set selected_rows" "a < length (tasks s)"
    unfolding c using delete_rows_index [OF d, of s, unfolded set] that by simp
qed

lemmas sample_defs = fresh_def initial_app_def update_ui_for_state_def display_eq save_data_def
  settings_of_def toggle_timer_def running_at_def enter_task_def add_task_def strip_def
  isspace_def three_tasks_def Let_def task_item_clicked_def working_on_def credits_def
  update_task_progress_def completed_message_def

subsection \<open>The state machine: leaving focus (C1)\<close>

text \<open>
  Claim C1. A call of \<^verbatim>\<open>_advance_state_machine\<close> in the focus state, with a long-break
  interval other than zero, returns. The tasks, the active index and the effects are
  those that \<^verbatim>\<open>_update_task_progress\<close> leaves (the active task is credited); the cycle
  counter is one more than before; the new state is \<open>long_break\<close> exactly when the
  new counter is a multiple of the interval, otherwise \<open>short_break\<close>; the countdown
  is the configured duration of the new state; the timer does not run.
\<close>

theorem advance_from_focus:
  assumes "current_state s = pomodoro" and "long_break_interval s \<noteq> 0"
  shows "\<exists>s'. advance_state_machine s = Inr s' \<and>
     tasks s' = tasks (update_task_progress s) \<and>
     current_task_index s' = current_task_index (update_task_progress s) \<and>
     effects s' = effects (update_task_progress s) \<and>
     completed_pomodoros_in_cycle s' = completed_pomodoros_in_cycle s + 1 \<and>
     current_state s' = (if (completed_pomodoros_in_cycle s + 1) mod long_break_interval s = 0
                         then long_break else short_break) \<and>
     current_time_left s' = (if current_state s' = long_break
                             then long_break_time s else short_break_time s) \<and>
     \<not> is_running s'"
  using assms
  by (simp add: advance_pomodoro ui_frame toggle_off_frame progress_frame)

text \<open>
  Witness for C1: the first focus phase of a session ends while task A is active; A
  has one completed unit afterwards, the counter is 1, and a short break of 300
  seconds is entered, paused.
\<close>

theorem advance_from_focus_witness:
  "current_state (running_at 0 (working_on 0)) = pomodoro \<and>
   long_break_interval (running_at 0 (working_on 0)) \<noteq> 0 \<and>
   (\<exists>s'. advance_state_machine (running_at 0 (working_on 0)) = Inr s' \<and>
      completed (tasks s' ! 0) = 1 \<and>
      completed_pomodoros_in_cycle s' = 1 \<and> current_state s' = short_break \<and>
      current_time_left s' = 300 \<and> \<not> is_running s')"
proof -
  have h1: "current_state (running_at 0 (working_on 0)) = pomodoro"
    by (simp add: sample_defs)
  have h2: "long_break_interval (running_at 0 (working_on 0)) \<noteq> 0"
    by (simp add: sample_defs)
  have v: "completed_pomodoros_in_cycle (running_at 0 (working_on 0)) = 0"
     "long_break_interval (running_at 0 (working_on 0)) = 4"
     "short_break_time (running_at 0 (working_on 0)) = 300"
     "completed (tasks (update_task_progress (running_at 0 (working_on 0))) ! 0) = 1"
    by (simp_all add: sample_defs)
  from advance_from_focus [OF h1 h2] h1 h2 show ?thesis
    by (auto simp add: v)
qed

subsection \<open>The tick (C3, C9)\<close>

text \<open>
  Claim C9. A tick with time left only decrements the countdown: state, running flag,
  cycle counter, tasks and active index are as before, and nothing is saved or played
  (the effects are unchanged).
\<close>

theorem tick_frame:
  assumes "0 < current_time_left s"
  shows "\<exists>s'. update_timer s = Inr s' \<and>
     s' = s\<lparr>current_time_left := current_time_left s - 1\<rparr> \<and>
     current_time_left s' = current_time_left s - 1 \<and>
     current_state s' = current_state s \<and>
     is_running s' = is_running s \<and>
     completed_pomodoros_in_cycle s' = completed_pomodoros_in_cycle s \<and>
     tasks s' = tasks s \<and>
     current_task_index s' = current_task_index s \<and>
     effects s' = effects s"
  using assms by (simp add: update_timer_def)

text \<open>Witness for C9: a tick at 90 seconds leaves the same session at 89 seconds.\<close>

theorem tick_frame_witness:
  "0 < current_time_left (running_at 90 three_tasks) \<and>
   update_timer (running_at 90 three_tasks) = Inr (running_at 89 three_tasks)"
  using tick_frame [of "running_at 90 three_tasks"] by (simp add: running_at_def)

text \<open>
  Counterexample to C3 as stated. In a running focus phase with one second left the
  tick brings the countdown to 0, and that is all it does: the timer still runs, the
  state is still focus and no sound has been played.
\<close>

theorem tick_reaching_zero_counterexample:
  "is_running (running_at 1 fresh) \<and> current_time_left (running_at 1 fresh) = 1 \<and>
   update_timer (running_at 1 fresh) = Inr (running_at 0 fresh) \<and>
   is_running (running_at 0 fresh) \<and>
   current_state (running_at 0 fresh) = current_state (running_at 1 fresh) \<and>
   effects (running_at 0 fresh) = effects (running_at 1 fresh)"
  by (simp add: update_timer_def sample_defs)

text \<open>
  Claim C3, amended. A tick with time left decrements the countdown by 1 and does
  nothing else, also when the countdown thereby reaches 0. A tick that finds the
  countdown at 0 does not decrement it: it plays the sound of the phase that ends
  (focus-end in focus, break-end otherwise), stops the timer and calls
  \<^verbatim>\<open>_advance_state_machine\<close>; unless that raises on a zero interval, the timer is
  stopped afterwards, the state has changed, and the effects start with those before
  the tick followed by the sound.
\<close>

theorem tick_amended:
  "(0 < current_time_left s \<longrightarrow>
      update_timer s = Inr (s\<lparr>current_time_left := current_time_left s - 1\<rparr>)) \<and>
   (current_time_left s \<le> 0 \<longrightarrow>
      update_timer s = advance_state_machine
        ((play_sound (phase_end_media s) s)\<lparr>timer_active := False, is_running := False\<rparr>) \<and>
      ((current_state s = pomodoro \<longrightarrow> long_break_interval s \<noteq> 0) \<longrightarrow>
         (\<exists>s'. update_timer s = Inr s' \<and> \<not> is_running s' \<and> \<not> timer_active s' \<and>
            current_state s' \<noteq> current_state s \<and>
            (\<exists>rest. effects s' = effects (play_sound (phase_end_media s) s) @ rest))))"
proof -
  let ?s2 = "(play_sound (phase_end_media s) s)\<lparr>timer_active := False, is_running := False\<rparr>"
  have eq: "current_time_left s \<le> 0 \<Longrightarrow> update_timer s = advance_state_machine ?s2"
    by (simp add: update_timer_def phase_end_media_def Let_def)
  have fr: "current_state ?s2 = current_state s" "long_break_interval ?s2 = long_break_interval s"
    "\<not> is_running ?s2" "\<not> timer_active ?s2" "effects ?s2 = effects (play_sound (phase_end_media s) s)"
    by (simp_all add: play_sound_def split: option.splits)
  have "\<exists>s'. advance_state_machine ?s2 = Inr s' \<and> \<not> is_running s' \<and> \<not> timer_active s' \<and>
            current_state s' \<noteq> current_state s \<and>
            (\<exists>rest. effects s' = effects (play_sound (phase_end_media s) s) @ rest)"
    if "current_state s = pomodoro \<longrightarrow> long_break_interval s \<noteq> 0"
    using advance_returns [of ?s2] that fr by auto
  with eq show ?thesis by (simp add: update_timer_def)
qed

text \<open>
  Witness for the amended C3: the tick at one second only decrements; the tick that
  finds the running focus phase at 0 plays the focus-end sound, stops the timer and
  leaves the focus state.
\<close>

theorem tick_amended_witness:
  "0 < current_time_left (running_at 1 fresh) \<and>
   update_timer (running_at 1 fresh) = Inr (running_at 0 fresh) \<and>
   current_time_left (running_at 0 fresh) \<le> 0 \<and>
   current_state (running_at 0 fresh) = pomodoro \<and>
   long_break_interval (running_at 0 fresh) \<noteq> 0 \<and>
   (\<exists>s'. update_timer (running_at 0 fresh) = Inr s' \<and> \<not> is_running s' \<and> \<not> timer_active s' \<and>
      current_state s' \<noteq> pomodoro \<and>
      (\<exists>rest. effects s' = effects fresh @ [Played ''sounds/focus_end.mp3''] @ rest))"
proof -
  have h: "current_time_left (running_at 0 fresh) \<le> 0"
    "current_state (running_at 0 fresh) = pomodoro"
    "long_break_interval (running_at 0 fresh) \<noteq> 0"
    by (simp_all add: sample_defs)
  have e: "effects (play_sound (phase_end_media (running_at 0 fresh)) (running_at 0 fresh)) =
      effects fresh @ [Played ''sounds/focus_end.mp3'']"
    by (simp add: sample_defs phase_end_media_def play_sound_def)
  from tick_amended [of "running_at 0 fresh"] h
  obtain s' where s': "update_timer (running_at 0 fresh) = Inr s'" "\<not> is_running s'"
    "\<not> timer_active s'" "current_state s' \<noteq> current_state (running_at 0 fresh)"
    "\<exists>rest. effects s' =
       effects (play_sound (phase_end_media (running_at 0 fresh)) (running_at 0 fresh)) @ rest"
    by blast
  from s'(5) e have "\<exists>rest. effects s' = effects fresh @ [Played ''sounds/focus_end.mp3''] @ rest"
    by simp
  moreover have "0 < current_time_left (running_at 1 fresh)"
    "(running_at 1 fresh)\<lparr>current_time_left := current_time_left (running_at 1 fresh) - 1\<rparr> =
       running_at 0 fresh"
    by (simp_all add: running_at_def)
  moreover note tick_amended [of "running_at 1 fresh"]
  ultimately show ?thesis using s'(1-4) h by simp
qed

subsection \<open>Entering the long break (C4)\<close>

text \<open>
  Counterexample to C4 as stated. With the default interval 4, six calls of
  \<^verbatim>\<open>_advance_state_machine\<close> from a fresh session lead through three focus phases
  and their breaks into the fourth focus phase, with the counter at 3. The seventh
  call enters the long break, and the counter is 4 there, not 0.
\<close>

theorem long_break_entry_counterexample:
  "long_break_interval fresh = 4 \<and>
   current_state (projr (advances 6 fresh)) = pomodoro \<and>
   completed_pomodoros_in_cycle (projr (advances 6 fresh)) = 3 \<and>
   current_state (projr (advances 7 fresh)) = long_break \<and>
   completed_pomodoros_in_cycle (projr (advances 7 fresh)) = 4"
  by (simp add: eval_nat_numeral sample_defs advance_state_machine_def update_task_progress_def
      toggle_timer_off_if_running_def)

text \<open>
  Claim C4, amended. When \<^verbatim>\<open>_advance_state_machine\<close> leaves focus for the long break,
  the counter keeps the incremented value, which is not 0; the next call, which
  leaves the long break for focus, resets the counter to 0.
\<close>

theorem long_break_entry_amended:
  assumes "current_state s = pomodoro" and "long_break_interval s \<noteq> 0"
    and "0 \<le> completed_pomodoros_in_cycle s"
    and "(completed_pomodoros_in_cycle s + 1) mod long_break_interval s = 0"
  shows "\<exists>s' s''. advance_state_machine s = Inr s' \<and> current_state s' = long_break \<and>
     completed_pomodoros_in_cycle s' = completed_pomodoros_in_cycle s + 1 \<and>
     completed_pomodoros_in_cycle s' \<noteq> 0 \<and>
     advance_state_machine s' = Inr s'' \<and> current_state s'' = pomodoro \<and>
     completed_pomodoros_in_cycle s'' = 0"
proof -
  let ?s' = "update_ui_for_state ((toggle_timer_off_if_running (update_task_progress s))
       \<lparr>completed_pomodoros_in_cycle := completed_pomodoros_in_cycle s + 1,
        current_state := long_break\<rparr>)"
  have a: "advance_state_machine s = Inr ?s'"
    using assms by (simp add: advance_pomodoro)
  have st: "current_state ?s' = long_break" 
    and c: "completed_pomodoros_in_cycle ?s' = completed_pomodoros_in_cycle s + 1"
    by (simp_all add: ui_frame)
  have ne: "current_state ?s' \<noteq> pomodoro" using st by simp
  have b: "\<exists>s''. advance_state_machine ?s' = Inr s'' \<and> current_state s'' = pomodoro \<and>
     completed_pomodoros_in_cycle s'' = 0"
    by (simp only: advance_break [OF ne] st) (simp add: ui_frame)
  from a st c b assms(3) show ?thesis by auto
qed

text \<open>
  Witness for the amended C4: the fourth focus phase of a session with interval 4.
\<close>

theorem long_break_entry_amended_witness:
  "current_state (projr (advances 6 fresh)) = pomodoro \<and>
   long_break_interval (projr (advances 6 fresh)) \<noteq> 0 \<and>
   0 \<le> completed_pomodoros_in_cycle (projr (advances 6 fresh)) \<and>
   (completed_pomodoros_in_cycle (projr (advances 6 fresh)) + 1) mod
      long_break_interval (projr (advances 6 fresh)) = 0 \<and>
   (\<exists>s' s''. advance_state_machine (projr (advances 6 fresh)) = Inr s' \<and>
      current_state s' = long_break \<and> completed_pomodoros_in_cycle s' = 4 \<and>
      advance_state_machine s' = Inr s'' \<and> current_state s'' = pomodoro \<and>
      completed_pomodoros_in_cycle s'' = 0)"
proof -
  have h: "current_state (projr (advances 6 fresh)) = pomodoro"
    "long_break_interval (projr (advances 6 fresh)) \<noteq> 0"
    "0 \<le> completed_pomodoros_in_cycle (projr (advances 6 fresh))"
    "(completed_pomodoros_in_cycle (projr (advances 6 fresh)) + 1) mod
       long_break_interval (projr (advances 6 fresh)) = 0"
    and v: "completed_pomodoros_in_cycle (projr (advances 6 fresh)) = 3"
    by (simp_all add: eval_nat_numeral sample_defs advance_state_machine_def
        toggle_timer_off_if_running_def)
  from long_break_entry_amended [OF h] h v show ?thesis by auto
qed

subsection \<open>Crediting the active task (C2, C10)\<close>

text \<open>
  Claim C2. \<^verbatim>\<open>_update_task_progress\<close> changes nothing (no field of the window, no
  effect) when no task is active or the active task is done. Otherwise the active
  task gains one completed unit and the list is saved; if the new count reaches the
  estimate, the task becomes done, the "Task Completed!" box is shown, the active
  index is cleared, and a further call changes nothing. If it does not reach the
  estimate, the task stays open and active.
\<close>

theorem credit_active_task:
  "((current_task_index s = None \<or>
     (\<exists>i. current_task_index s = Some i \<and> i < length (tasks s) \<and> task_done (tasks s ! i))) \<longrightarrow>
      update_task_progress s = s) \<and>
   (\<forall>i. current_task_index s = Some i \<and> i < length (tasks s) \<and> \<not> task_done (tasks s ! i) \<longrightarrow>
      (let t = tasks s ! i; s' = update_task_progress s in
         (completed t + 1 < estimated t \<longrightarrow>
            tasks s' = (tasks s)[i := t\<lparr>completed := completed t + 1\<rparr>] \<and>
            current_task_index s' = Some i \<and>
            effects s' = effects s @ [Saved (settings_of s) (tasks s')]) \<and>
         (estimated t \<le> completed t + 1 \<longrightarrow>
            tasks s' = (tasks s)[i := t\<lparr>completed := completed t + 1, task_done := True\<rparr>] \<and>
            current_task_index s' = None \<and>
            effects s' = effects s @
              [Information ''Task Completed!'' (completed_message t),
               Saved (settings_of s) (tasks s')] \<and>
            update_task_progress s' = s')))"
  by (auto simp add: update_task_progress_def Let_def save_data_def display_eq settings_of_def
      completed_message_def)

text \<open>
  Witness for C2: task A (estimate 3) is active and has been credited twice; the
  third credit completes it and clears the active index; the fourth changes nothing.
\<close>

theorem credit_active_task_witness:
  "current_task_index (credits 2 (working_on 0)) = Some 0 \<and>
   tasks (credits 2 (working_on 0)) ! 0 =
     \<lparr>task_text = ''A'', estimated = 3, completed = 2, task_done = False\<rparr> \<and>
   tasks (credits 3 (working_on 0)) ! 0 =
     \<lparr>task_text = ''A'', estimated = 3, completed = 3, task_done = True\<rparr> \<and>
   current_task_index (credits 3 (working_on 0)) = None \<and>
   credits 4 (working_on 0) = credits 3 (working_on 0)"
proof -
  have h: "current_task_index (credits 2 (working_on 0)) = Some 0"
    "0 < length (tasks (credits 2 (working_on 0)))"
    "tasks (credits 2 (working_on 0)) ! 0 =
       \<lparr>task_text = ''A'', estimated = 3, completed = 2, task_done = False\<rparr>"
    by (simp_all add: eval_nat_numeral sample_defs)
  have c: "credits 3 (working_on 0) = update_task_progress (credits 2 (working_on 0))"
    "credits 4 (working_on 0) = update_task_progress (credits 3 (working_on 0))"
    by (simp_all add: credits_def eval_nat_numeral)
  from credit_active_task [of "credits 2 (working_on 0)"] h c show ?thesis
    by (simp add: Let_def)
qed

text \<open>
  Claim C10. With an active index at or beyond the length of the task list,
  \<^verbatim>\<open>_update_task_progress\<close> changes nothing: the function is total (no error branch),
  no task is written and nothing is saved.
\<close>

theorem credit_stale_index:
  assumes "current_task_index s = Some i" and "length (tasks s) \<le> i"
  shows "update_task_progress s = s"
  using assms by (simp add: update_task_progress_def)

text \<open>
  Witness for C10: task C in row 2 is active, then row 0 is deleted; the index 2 is
  left pointing past the two remaining tasks.
\<close>

theorem credit_stale_index_witness:
  "current_task_index (delete_selected_tasks (working_on 2) [0] Yes) = Some 2 \<and>
   length (tasks (delete_selected_tasks (working_on 2) [0] Yes)) \<le> 2 \<and>
   update_task_progress (delete_selected_tasks (working_on 2) [0] Yes) =
     delete_selected_tasks (working_on 2) [0] Yes"
proof -
  have h: "current_task_index (delete_selected_tasks (working_on 2) [0] Yes) = Some 2"
    "length (tasks (delete_selected_tasks (working_on 2) [0] Yes)) \<le> 2"
    by (simp_all add: sample_defs delete_selected_tasks_def delete_row_def del_at_def upt_rec)
  from credit_stale_index [OF h] h show ?thesis by simp
qed

subsection \<open>Editing a done task (C7)\<close>

text \<open>
  Claim C7. When the edit dialog of a done task is accepted with a description that is
  not empty after stripping, the task is done afterwards exactly when the new estimate
  is at most its completed count: a larger estimate reopens it, any other leaves it
  done. The estimate is the new one and the completed count is unchanged.
\<close>

theorem edit_done_task:
  assumes "row < length (tasks s)" and "task_done (tasks s ! row)" and "strip txt \<noteq> []"
  shows "task_done (tasks (edit_selected_task s row (Accepted txt est)) ! row) =
           (est \<le> completed (tasks s ! row)) \<and>
         estimated (tasks (edit_selected_task s row (Accepted txt est)) ! row) = est \<and>
         completed (tasks (edit_selected_task s row (Accepted txt est)) ! row) =
           completed (tasks s ! row)"
  using assms
  by (auto simp add: edit_selected_task_def get_data_def Let_def save_data_def display_eq)

text \<open>
  Witness for C7: task A is done with 3 of 3; the estimate 5 reopens it, the estimate 2
  leaves it done.
\<close>

theorem edit_done_task_witness:
  "0 < length (tasks (credits 3 (working_on 0))) \<and>
   tasks (credits 3 (working_on 0)) ! 0 =
     \<lparr>task_text = ''A'', estimated = 3, completed = 3, task_done = True\<rparr> \<and>
   strip ''A'' \<noteq> [] \<and>
   task_done (tasks (edit_selected_task (credits 3 (working_on 0)) 0 (Accepted ''A'' 5)) ! 0) = False \<and>
   task_done (tasks (edit_selected_task (credits 3 (working_on 0)) 0 (Accepted ''A'' 2)) ! 0) = True"
proof -
  have h: "0 < length (tasks (credits 3 (working_on 0)))"
    "tasks (credits 3 (working_on 0)) ! 0 =
       \<lparr>task_text = ''A'', estimated = 3, completed = 3, task_done = True\<rparr>"
    "strip ''A'' \<noteq> []"
    by (simp_all add: eval_nat_numeral sample_defs)
  have d: "task_done (tasks (credits 3 (working_on 0)) ! 0)" by (simp add: h(2))
  from edit_done_task [OF h(1) d h(3), of 5] edit_done_task [OF h(1) d h(3), of 2] h
  show ?thesis by simp
qed

subsection \<open>Adding a task (C8)\<close>

text \<open>
  Counterexample to C8 as stated. \<^verbatim>\<open>_add_task\<close> with an empty description returns the
  window as it is: no message box is among the effects, so nothing is surfaced to the
  user.
\<close>

theorem add_empty_counterexample:
  "strip (task_input (fresh\<lparr>task_input := [], pomodoro_estimate_input := 2\<rparr>)) = [] \<and>
   add_task (fresh\<lparr>task_input := [], pomodoro_estimate_input := 2\<rparr>) =
     fresh\<lparr>task_input := [], pomodoro_estimate_input := 2\<rparr> \<and>
   effects (add_task (fresh\<lparr>task_input := [], pomodoro_estimate_input := 2\<rparr>)) = effects fresh"
  by (simp add: add_task_def strip_def)

text \<open>
  Claim C8, amended. \<^verbatim>\<open>_add_task\<close> with a description that is empty after stripping
  changes nothing and reports nothing (no task, no effect). With any other
  description it appends a task with the stripped description, the estimate of the
  spin box, completed 0 and not done, and saves; the active index is unchanged.
\<close>

theorem add_task_amended:
  "(strip (task_input s) = [] \<longrightarrow> add_task s = s) \<and>
   (strip (task_input s) \<noteq> [] \<longrightarrow>
      tasks (add_task s) = tasks s @
        [\<lparr>task_text = strip (task_input s), estimated = pomodoro_estimate_input s,
          completed = 0, task_done = False\<rparr>] \<and>
      current_task_index (add_task s) = current_task_index s \<and>
      effects (add_task s) = effects s @ [Saved (settings_of s) (tasks (add_task s))])"
  by (simp add: add_task_def Let_def save_data_def display_eq settings_of_def)

text \<open>
  Witness for the amended C8: a description with spaces around it is added stripped;
  a description of spaces only is ignored.
\<close>

theorem add_task_amended_witness:
  "strip (task_input (fresh\<lparr>task_input := ''  read mail '', pomodoro_estimate_input := 2\<rparr>)) \<noteq> [] \<and>
   tasks (add_task (fresh\<lparr>task_input := ''  read mail '', pomodoro_estimate_input := 2\<rparr>)) =
     [\<lparr>task_text = ''read mail'', estimated = 2, completed = 0, task_done = False\<rparr>] \<and>
   strip (task_input (fresh\<lparr>task_input := ''   ''\<rparr>)) = [] \<and>
   add_task (fresh\<lparr>task_input := ''   ''\<rparr>) = fresh\<lparr>task_input := ''   ''\<rparr>"
proof -
  have h: "strip (task_input (fresh\<lparr>task_input := ''  read mail '', pomodoro_estimate_input := 2\<rparr>))
       = ''read mail''"
    "strip (task_input (fresh\<lparr>task_input := ''   ''\<rparr>)) = []"
    "tasks fresh = []"
    by (simp_all add: strip_def isspace_def sample_defs)
  from add_task_amended [of "fresh\<lparr>task_input := ''  read mail '', pomodoro_estimate_input := 2\<rparr>"]
    add_task_amended [of "fresh\<lparr>task_input := ''   ''\<rparr>"] h
  show ?thesis by simp
qed

subsection \<open>Reordering (C5)\<close>

text \<open>
  Claim C5 at a failing input. The list shows the tasks A, B and C, task A in row 0 is
  active, and A is dragged to row 2, so that the items stand in the order of the
  former rows 1, 2, 0. The claim asks for the same three task dicts in the new order
  and for the active index 2. \<^verbatim>\<open>dropEvent\<close> leaves the row numbers 1, 2, 0 in the task
  list, no task dict, and the active index at 0.
\<close>

theorem reorder_failing_input:
  "tasks (working_on 0) =
     [\<lparr>task_text = ''A'', estimated = 3, completed = 0, task_done = False\<rparr>,
      \<lparr>task_text = ''B'', estimated = 2, completed = 0, task_done = False\<rparr>,
      \<lparr>task_text = ''C'', estimated = 1, completed = 0, task_done = False\<rparr>] \<and>
   current_task_index (working_on 0) = Some 0 \<and>
   items (working_on 0) = [0, 1, 2] \<and>
   move_row 0 2 (items (working_on 0)) = [1, 2, 0] \<and>
   tasks (dropEvent (working_on 0) (move_row 0 2 (items (working_on 0))) False) =
     [RowNumber 1, RowNumber 2, RowNumber 0] \<and>
   current_task_index (dropEvent (working_on 0) (move_row 0 2 (items (working_on 0))) False) =
     Some 0"
proof -
  have i: "items (working_on 0) = [0, 1, 2]" "current_task_index (working_on 0) = Some 0"
    "tasks (working_on 0) =
       [\<lparr>task_text = ''A'', estimated = 3, completed = 0, task_done = False\<rparr>,
        \<lparr>task_text = ''B'', estimated = 2, completed = 0, task_done = False\<rparr>,
        \<lparr>task_text = ''C'', estimated = 1, completed = 0, task_done = False\<rparr>]"
    by (simp_all add: sample_defs upt_rec)
  show ?thesis
    by (simp add: i dropEvent_def Let_def move_row_def del_at_def)
qed

subsection \<open>Deleting tasks (C6)\<close>

text \<open>
  Claim C6 at a failing input. The list shows the tasks A, B and C, task B in row 1 is
  active, and the deletion of row 0 is confirmed. The claim asks that the active index
  still refer to B. \<^verbatim>\<open>_delete_selected_tasks\<close> leaves the index at 1, where task C now
  stands, while the label still reads "Doing: B"; the next call of
  \<^verbatim>\<open>_update_task_progress\<close> credits and completes C. With task C in row 2 active
  instead, the index is left at 2, past the end of the two remaining tasks.
\<close>

theorem delete_failing_input:
  "current_task_index (working_on 1) = Some 1 \<and>
   tasks (working_on 1) ! 1 =
     \<lparr>task_text = ''B'', estimated = 2, completed = 0, task_done = False\<rparr> \<and>
   tasks (delete_selected_tasks (working_on 1) [0] Yes) =
     [\<lparr>task_text = ''B'', estimated = 2, completed = 0, task_done = False\<rparr>,
      \<lparr>task_text = ''C'', estimated = 1, completed = 0, task_done = False\<rparr>] \<and>
   current_task_index (delete_selected_tasks (working_on 1) [0] Yes) = Some 1 \<and>
   current_task_display_label (delete_selected_tasks (working_on 1) [0] Yes) = ''Doing: B'' \<and>
   tasks (update_task_progress (delete_selected_tasks (working_on 1) [0] Yes)) =
     [\<lparr>task_text = ''B'', estimated = 2, completed = 0, task_done = False\<rparr>,
      \<lparr>task_text = ''C'', estimated = 1, completed = 1, task_done = True\<rparr>] \<and>
   current_task_index (working_on 2) = Some 2 \<and>
   current_task_index (delete_selected_tasks (working_on 2) [0] Yes) = Some 2 \<and>
   length (tasks (delete_selected_tasks (working_on 2) [0] Yes)) = 2"
  by (simp add: sample_defs delete_selected_tasks_def delete_row_def del_at_def upt_rec)

end
